theory Spec2Isabelle
  imports Main
begin

section \<open>Data model of the auth provider (\<^verbatim>\<open>r2r_auth.py\<close>)\<close>

text \<open>
  Instants (\<^verbatim>\<open>datetime\<close> values in UTC) are integers counting microseconds, the
  resolution of \<^verbatim>\<open>datetime\<close> and \<^verbatim>\<open>timedelta\<close>. The clock reading
  \<^verbatim>\<open>datetime.now(timezone.utc)\<close> of a call is the field \<open>now\<close> of that call's
  environment.
\<close>

type_synonym instant = int

text \<open>
  The exceptions of the source: \<^verbatim>\<open>R2RException(status_code, message)\<close>,
  FastAPI's \<^verbatim>\<open>HTTPException(status_code, detail)\<close>, and the Python faults that no
  handler of the module names: \<^verbatim>\<open>AttributeError\<close> on \<^verbatim>\<open>None.attr\<close>, the range
  errors of \<^verbatim>\<open>datetime\<close> (\<open>ValueError\<close> from \<^verbatim>\<open>fromtimestamp\<close>, \<open>OverflowError\<close>
  from \<^verbatim>\<open>datetime + timedelta\<close>), and whatever else a collaborator raises.
\<close>

datatype exn =
    R2RException int string
  | HTTPException int string
  | AttributeError
  | ValueError
  | OverflowError
  | OtherError string

subsection \<open>The range of \<^verbatim>\<open>datetime\<close>\<close>

text \<open>
  A \<^verbatim>\<open>datetime\<close> holds the instants from 0001-01-01T00:00:00 to
  9999-12-31T23:59:59.999999 (UTC), here in microseconds since 1970-01-01T00:00:00.
\<close>

definition datetime_min :: instant where
  "datetime_min = - 62135596800000000"

definition datetime_max :: instant where
  "datetime_max = 253402300799999999"

definition representable :: "instant \<Rightarrow> bool" where
  "representable i = (datetime_min \<le> i \<and> i \<le> datetime_max)"

text \<open>
  \<^verbatim>\<open>datetime.fromtimestamp(ts, tz=timezone.utc)\<close>. Outside the range Python raises
  \<^verbatim>\<open>ValueError\<close> ("year 10000 is out of range") and, for magnitudes beyond the
  platform's C types, \<^verbatim>\<open>OverflowError\<close> or \<^verbatim>\<open>OSError\<close>; the module tells none of
  them apart and catches none, and \<open>ValueError\<close> stands for all three.
\<close>

definition fromtimestamp :: "instant \<Rightarrow> exn + instant" where
  "fromtimestamp ts = (if representable ts then Inr ts else Inl ValueError)"

text \<open>
  \<^verbatim>\<open>d + timedelta(...)\<close>: \<^verbatim>\<open>OverflowError\<close> when the sum is not a \<^verbatim>\<open>datetime\<close>
  (for a \<^verbatim>\<open>datetime\<close> \<open>d\<close> this includes every span too long for a \<^verbatim>\<open>timedelta\<close>,
  whose construction raises \<^verbatim>\<open>OverflowError\<close> as well).
\<close>

definition datetime_add :: "instant \<Rightarrow> int \<Rightarrow> exn + instant" where
  "datetime_add d delta =
     (if representable (d + delta) then Inr (d + delta) else Inl OverflowError)"

type_synonym uid = nat

record User =
  uid :: uid
  email :: string
  hashed_password :: "string option"  \<comment> \<open>\<open>None\<close>: the stored value is not a \<^verbatim>\<open>str\<close>\<close>
  is_active :: bool
  is_verified :: bool
  name :: "string option"

record Token =
  token :: string
  token_type :: string

record TokenData =
  td_email :: string
  td_token_type :: string
  td_exp :: instant

text \<open>
  The dictionary returned by \<^verbatim>\<open>crypto_provider.verify_secure_token\<close>, read only
  through \<^verbatim>\<open>payload.get("sub")\<close>, \<^verbatim>\<open>payload.get("token_type")\<close> and
  \<^verbatim>\<open>payload.get("exp")\<close>: each of the three keys is present or absent, with the value
  types the source annotates.
\<close>

record payload =
  p_sub :: "string option"
  p_token_type :: "string option"
  p_exp :: "instant option"

record key_record =
  hashed_key :: string
  user_id :: uid

record token_pair =
  access_token :: Token
  refresh_token :: Token

subsection \<open>Collaborators\<close>

text \<open>
  The crypto provider, the users handler of the database provider and the email provider
  are not part of the module: their behaviour at a call is a parameter. \<open>'w\<close> is the
  state they work on (the user tables and the outbox). A call of a collaborator that may
  raise returns \<open>exn + _\<close>; a store call that raises leaves \<open>'w\<close> as it was.
  The configuration values read by the provider are fields as well.
\<close>

record 'w env =
  now :: instant
  access_token_lifetime_in_minutes :: int
  refresh_token_lifetime_in_days :: int
  require_email_verification :: bool
  generate_secure_token :: "(string \<rightharpoonup> string) \<Rightarrow> instant \<Rightarrow> string"
  verify_secure_token :: "string \<Rightarrow> payload option"
  verify_api_key :: "string \<Rightarrow> string \<Rightarrow> bool"
  verify_password :: "string \<Rightarrow> string \<Rightarrow> exn + bool"
  generate_verification_code :: string
  token_expiry :: "string \<Rightarrow> instant option"
  get_user_by_email :: "string \<Rightarrow> 'w \<Rightarrow> exn + User option"
  get_user_by_id :: "uid \<Rightarrow> 'w \<Rightarrow> exn + User"
  get_api_key_record :: "string \<Rightarrow> 'w \<Rightarrow> exn + key_record option"
  get_user_id_by_verification_code :: "string \<Rightarrow> 'w \<Rightarrow> exn + uid"
  mark_user_as_verified :: "uid \<Rightarrow> 'w \<Rightarrow> exn + 'w"
  remove_verification_code :: "string \<Rightarrow> 'w \<Rightarrow> exn + 'w"
  store_reset_token :: "uid \<Rightarrow> string \<Rightarrow> instant \<Rightarrow> 'w \<Rightarrow> exn + 'w"
  send_password_reset_email ::
    "string \<Rightarrow> string \<Rightarrow> (string \<rightharpoonup> string) \<Rightarrow> 'w \<Rightarrow> exn + 'w"

subsection \<open>The token blacklist\<close>

text \<open>
  The state of the provider: the blacklist kept by
  \<^verbatim>\<open>database_provider.token_handler\<close>, and the state \<open>'w\<close> of the other collaborators.
\<close>

record 'w state =
  blacklist :: "string list"
  world :: 'w

text \<open>
  Modelled from the spec: \<^verbatim>\<open>token_handler.is_token_blacklisted\<close>, which is not in the
  module. The Directory Store offers "a point lookup" \<^verbatim>\<open>isTokenBlacklisted(token) -> bool\<close>
  on a set "keyed by token string".
\<close>

definition is_token_blacklisted :: "'w state \<Rightarrow> string \<Rightarrow> bool" where
  "is_token_blacklisted st t = (t \<in> set (blacklist st))"

text \<open>
  Modelled from the spec: \<^verbatim>\<open>token_handler.blacklist_token\<close>, which is not in the module:
  "unconditionally adds to blacklist (idempotent)".
\<close>

definition blacklist_token :: "'w state \<Rightarrow> string \<Rightarrow> 'w state" where
  "blacklist_token st t =
     (if t \<in> set (blacklist st) then st else st\<lparr>blacklist := t # blacklist st\<rparr>)"

text \<open>
  Modelled from the spec: \<^verbatim>\<open>token_handler.clean_expired_blacklisted_tokens\<close>, which is
  not in the module: the sweep "purges blacklist entries past their own token expiry".
  \<open>token_expiry\<close> is the expiry the store holds for a token string (\<open>None\<close>: none known,
  the entry stays).
\<close>

definition purge_expired :: "'w env \<Rightarrow> string list \<Rightarrow> string list" where
  "purge_expired env ts =
     filter (\<lambda>t. case token_expiry env t of None \<Rightarrow> True | Some e \<Rightarrow> \<not> e < now env) ts"

section \<open>The provider's operations\<close>

subsection \<open>Token issue and verification\<close>

text \<open>
  \<^verbatim>\<open>timedelta(minutes=...)\<close>, \<^verbatim>\<open>timedelta(hours=...)\<close> and \<^verbatim>\<open>timedelta(days=...)\<close> in
  microseconds; the configured lifetimes are whole numbers of minutes and of days.
\<close>

definition minutes :: "int \<Rightarrow> int" where
  "minutes m = m * 60000000"

definition hours :: "int \<Rightarrow> int" where
  "hours h = h * 3600000000"

definition days :: "int \<Rightarrow> int" where
  "days d = d * 86400000000"

definition create_access_token :: "'w env \<Rightarrow> (string \<rightharpoonup> string) \<Rightarrow> exn + string" where
  "create_access_token env data =
     (case datetime_add (now env) (minutes (access_token_lifetime_in_minutes env)) of
        Inl e \<Rightarrow> Inl e
      | Inr expire \<Rightarrow>
          (let data_with_type = data(''token_type'' \<mapsto> ''access'')
           in Inr (generate_secure_token env data_with_type expire)))"

definition create_refresh_token :: "'w env \<Rightarrow> (string \<rightharpoonup> string) \<Rightarrow> exn + string" where
  "create_refresh_token env data =
     (case datetime_add (now env) (days (refresh_token_lifetime_in_days env)) of
        Inl e \<Rightarrow> Inl e
      | Inr expire \<Rightarrow>
          (let data_with_type = data(''token_type'' \<mapsto> ''refresh'')
           in Inr (generate_secure_token env data_with_type expire)))"

definition decode_token :: "'w env \<Rightarrow> 'w state \<Rightarrow> string \<Rightarrow> exn + TokenData" where
  "decode_token env st t =
     (if is_token_blacklisted st t
      then Inl (R2RException 401 ''Token has been invalidated'')
      else case verify_secure_token env t of
        None \<Rightarrow> Inl (R2RException 401 ''Invalid or expired token'')
      | Some pl \<Rightarrow>
          (case (p_sub pl, p_token_type pl, p_exp pl) of
             (Some em, Some tt, Some ex) \<Rightarrow>
               (case fromtimestamp ex of
                  Inl e \<Rightarrow> Inl e
                | Inr exp_datetime \<Rightarrow>
                    if exp_datetime < now env
                    then Inl (R2RException 401 ''Token has expired'')
                    else Inr \<lparr>td_email = em, td_token_type = tt, td_exp = exp_datetime\<rparr>)
           | _ \<Rightarrow> Inl (R2RException 401 ''Invalid token claims'')))"

subsection \<open>String helpers\<close>

text \<open>
  \<^verbatim>\<open>s.split(c, 1)\<close>: the one-element list \<open>[s]\<close> when \<open>c\<close> does not occur in \<open>s\<close>,
  else the part before the first \<open>c\<close> and the part after it.
\<close>

definition split_once :: "char \<Rightarrow> string \<Rightarrow> string list" where
  "split_once c s =
     (case dropWhile (\<lambda>x. x \<noteq> c) s of
        [] \<Rightarrow> [s]
      | _ # rest \<Rightarrow> [takeWhile (\<lambda>x. x \<noteq> c) s, rest])"

text \<open>\<^verbatim>\<open>s.split(c)[0]\<close>: the part of \<open>s\<close> before the first \<open>c\<close>.\<close>

definition split_head :: "char \<Rightarrow> string \<Rightarrow> string" where
  "split_head c s = takeWhile (\<lambda>x. x \<noteq> c) s"

definition removeprefix :: "string \<Rightarrow> string \<Rightarrow> string" where
  "removeprefix p s = (if take (length p) s = p then drop (length p) s else s)"

subsection \<open>API keys and the credential resolver\<close>

definition authenticate_api_key :: "'w env \<Rightarrow> 'w \<Rightarrow> string \<Rightarrow> exn + User" where
  "authenticate_api_key env w api_key =
     (case split_once (CHR ''.'') api_key of
        [key_id, raw_key] \<Rightarrow>
          (case get_api_key_record env key_id w of
             Inl e \<Rightarrow> Inl e
           | Inr None \<Rightarrow> Inl (R2RException 401 ''Invalid API key'')
           | Inr (Some kr) \<Rightarrow>
               if \<not> verify_api_key env raw_key (hashed_key kr)
               then Inl (R2RException 401 ''Invalid API key'')
               else (case get_user_by_id env (user_id kr) w of
                       Inl e \<Rightarrow> Inl e
                     | Inr u \<Rightarrow>
                         if \<not> is_active u
                         then Inl (R2RException 401 ''User account is inactive'')
                         else Inr u))
      | _ \<Rightarrow> Inl (R2RException 401 ''Invalid API key format''))"

text \<open>The body of the \<^verbatim>\<open>try\<close> block of \<^verbatim>\<open>user\<close>: the JWT attempt.\<close>

definition user_jwt :: "'w env \<Rightarrow> 'w state \<Rightarrow> string \<Rightarrow> exn + User" where
  "user_jwt env st t =
     (case decode_token env st t of
        Inl e \<Rightarrow> Inl e
      | Inr token_data \<Rightarrow>
          if td_email token_data = []
          then Inl (R2RException 401 ''Could not validate credentials'')
          else (case get_user_by_email env (td_email token_data) (world st) of
                  Inl e \<Rightarrow> Inl e
                | Inr None \<Rightarrow> Inl (R2RException 401 ''Invalid authentication credentials'')
                | Inr (Some u) \<Rightarrow> Inr u))"

text \<open>
  \<^verbatim>\<open>except R2RException\<close> catches the R2R exceptions of the attempt, whichever raised
  them; any other exception leaves \<^verbatim>\<open>user\<close>.
\<close>

definition user :: "'w env \<Rightarrow> 'w state \<Rightarrow> string \<Rightarrow> exn + User" where
  "user env st t =
     (case user_jwt env st t of
        Inr u \<Rightarrow> Inr u
      | Inl (R2RException sc m) \<Rightarrow>
          authenticate_api_key env (world st) (removeprefix ''Bearer '' t)
      | Inl e \<Rightarrow> Inl e)"

subsection \<open>Account operations\<close>

definition verify_email :: "'w env \<Rightarrow> 'w \<Rightarrow> string \<Rightarrow> string \<Rightarrow> (exn + string) \<times> 'w" where
  "verify_email env w em verification_code =
     (case get_user_id_by_verification_code env verification_code w of
        Inl e \<Rightarrow> (Inl e, w)
      | Inr i \<Rightarrow>
          (case mark_user_as_verified env i w of
             Inl e \<Rightarrow> (Inl e, w)
           | Inr w1 \<Rightarrow>
               (case remove_verification_code env verification_code w1 of
                  Inl e \<Rightarrow> (Inl e, w1)
                | Inr w2 \<Rightarrow> (Inr ''Email verified successfully'', w2))))"

definition login :: "'w env \<Rightarrow> 'w \<Rightarrow> string \<Rightarrow> string \<Rightarrow> exn + token_pair" where
  "login env w em password =
     (case get_user_by_email env em w of
        Inl e \<Rightarrow> Inl e
      | Inr None \<Rightarrow> Inl AttributeError
      | Inr (Some u) \<Rightarrow>
          (case hashed_password u of
             None \<Rightarrow> Inl (HTTPException 500 ''Invalid password hash in database'')
           | Some h \<Rightarrow>
               (case verify_password env password h of
                  Inl e \<Rightarrow> Inl (HTTPException 500 ''Error during password verification'')
                | Inr password_verified \<Rightarrow>
                    if \<not> password_verified
                    then Inl (R2RException 401 ''Incorrect email or password'')
                    else if \<not> is_verified u \<and> require_email_verification env
                    then Inl (R2RException 401 ''Email not verified'')
                    else
                      (case create_access_token env [''sub'' \<mapsto> email u] of
                         Inl e \<Rightarrow> Inl e
                       | Inr access_token' \<Rightarrow>
                           (case create_refresh_token env [''sub'' \<mapsto> email u] of
                              Inl e \<Rightarrow> Inl e
                            | Inr refresh_token' \<Rightarrow>
                                Inr \<lparr>access_token =
                                       \<lparr>token = access_token', token_type = ''access''\<rparr>,
                                     refresh_token =
                                       \<lparr>token = refresh_token',
                                        token_type = ''refresh''\<rparr>\<rparr>)))))"

definition refresh_access_token ::
  "'w env \<Rightarrow> 'w state \<Rightarrow> string \<Rightarrow> (exn + token_pair) \<times> 'w state" where
  "refresh_access_token env st rt =
     (case decode_token env st rt of
        Inl e \<Rightarrow> (Inl e, st)
      | Inr token_data \<Rightarrow>
          if td_token_type token_data \<noteq> ''refresh''
          then (Inl (R2RException 401 ''Invalid refresh token''), st)
          else
            (let st' = blacklist_token st rt
             in case create_access_token env [''sub'' \<mapsto> td_email token_data] of
                  Inl e \<Rightarrow> (Inl e, st')
                | Inr new_access_token \<Rightarrow>
                    (case create_refresh_token env [''sub'' \<mapsto> td_email token_data] of
                       Inl e \<Rightarrow> (Inl e, st')
                     | Inr new_refresh_token \<Rightarrow>
                         (Inr \<lparr>access_token =
                                 \<lparr>token = new_access_token, token_type = ''access''\<rparr>,
                               refresh_token =
                                 \<lparr>token = new_refresh_token, token_type = ''refresh''\<rparr>\<rparr>,
                          st'))))"

text \<open>
  \<^verbatim>\<open>user.name.split(" ")[0] if user.name else email.split("@")[0]\<close>; a name that is
  \<^verbatim>\<open>None\<close> or empty is falsy.
\<close>

definition first_name :: "User \<Rightarrow> string \<Rightarrow> string" where
  "first_name u em =
     (case name u of
        None \<Rightarrow> split_head (CHR ''@'') em
      | Some n \<Rightarrow> if n = [] then split_head (CHR ''@'') em else split_head (CHR '' '') n)"

text \<open>
  The handler of \<^verbatim>\<open>request_password_reset\<close>:
  \<^verbatim>\<open>except R2RException as e: if e.status_code == 404: return {...} else: raise\<close>;
  an exception of another class is not caught.
\<close>

definition reset_handler :: "exn \<Rightarrow> 'w \<Rightarrow> (exn + string) \<times> 'w" where
  "reset_handler e w =
     (case e of
        R2RException sc m \<Rightarrow>
          if sc = 404
          then (Inr ''If the email exists, a reset link has been sent'', w)
          else (Inl e, w)
      | _ \<Rightarrow> (Inl e, w))"

definition request_password_reset :: "'w env \<Rightarrow> 'w \<Rightarrow> string \<Rightarrow> (exn + string) \<times> 'w" where
  "request_password_reset env w em =
     (case get_user_by_email env em w of
        Inl e \<Rightarrow> reset_handler e w
      | Inr None \<Rightarrow> reset_handler AttributeError w
      | Inr (Some u) \<Rightarrow>
          (let reset_token = generate_verification_code env
           in case datetime_add (now env) (hours 1) of
                Inl e \<Rightarrow> reset_handler e w
              | Inr expiry \<Rightarrow>
                  (case store_reset_token env (uid u) reset_token expiry w of
                     Inl e \<Rightarrow> reset_handler e w
                   | Inr w1 \<Rightarrow>
                       (case send_password_reset_email env em reset_token
                               [''first_name'' \<mapsto> first_name u em] w1 of
                          Inl e \<Rightarrow> reset_handler e w1
                        | Inr w2 \<Rightarrow>
                            (Inr ''If the email exists, a reset link has been sent'',
                             w2)))))"

definition logout :: "'w state \<Rightarrow> string \<Rightarrow> string \<times> 'w state" where
  "logout st t = (''Logged out successfully'', blacklist_token st t)"

definition clean_expired_blacklisted_tokens :: "'w env \<Rightarrow> 'w state \<Rightarrow> 'w state" where
  "clean_expired_blacklisted_tokens env st =
     st\<lparr>blacklist := purge_expired env (blacklist st)\<rparr>"

subsection \<open>Sequences of operations\<close>

text \<open>
  One call on the provider. \<open>OpOther\<close> stands for the operations that reach the users
  handler, the collections handler or the email provider only (\<^verbatim>\<open>register\<close>,
  \<^verbatim>\<open>change_password\<close>, \<^verbatim>\<open>confirm_password_reset\<close>, \<^verbatim>\<open>send_reset_email\<close> and the API-key
  management calls): none of them names \<^verbatim>\<open>token_handler\<close>.
\<close>

datatype 'w op =
    OpDecodeToken "'w env" string
  | OpAuthenticateApiKey "'w env" string
  | OpUser "'w env" string
  | OpVerifyEmail "'w env" string string
  | OpLogin "'w env" string string
  | OpRefreshAccessToken "'w env" string
  | OpRequestPasswordReset "'w env" string
  | OpLogout string
  | OpCleanExpiredBlacklistedTokens "'w env"
  | OpOther "'w \<Rightarrow> 'w"

fun exec :: "'w op \<Rightarrow> 'w state \<Rightarrow> 'w state" where
  "exec (OpDecodeToken env t) st = st"
| "exec (OpAuthenticateApiKey env k) st = st"
| "exec (OpUser env t) st = st"
| "exec (OpVerifyEmail env em c) st = st\<lparr>world := snd (verify_email env (world st) em c)\<rparr>"
| "exec (OpLogin env em pw) st = st"
| "exec (OpRefreshAccessToken env rt) st = snd (refresh_access_token env st rt)"
| "exec (OpRequestPasswordReset env em) st =
     st\<lparr>world := snd (request_password_reset env (world st) em)\<rparr>"
| "exec (OpLogout t) st = snd (logout st t)"
| "exec (OpCleanExpiredBlacklistedTokens env) st = clean_expired_blacklisted_tokens env st"
| "exec (OpOther f) st = st\<lparr>world := f (world st)\<rparr>"

fun run :: "'w op list \<Rightarrow> 'w state \<Rightarrow> 'w state" where
  "run [] st = st"
| "run (x # xs) st = run xs (exec x st)"

fun is_sweep :: "'w op \<Rightarrow> bool" where
  "is_sweep (OpCleanExpiredBlacklistedTokens env) = True"
| "is_sweep _ = False"

text \<open>The operation is a sweep whose store holds, for \<open>t\<close>, an expiry before its clock.\<close>

fun purges :: "'w op \<Rightarrow> string \<Rightarrow> bool" where
  "purges (OpCleanExpiredBlacklistedTokens env) t =
     (case token_expiry env t of None \<Rightarrow> False | Some e \<Rightarrow> e < now env)"
| "purges _ t = False"

text \<open>The expiry a token string carries, as the cipher of a call reads it.\<close>

definition own_expiry :: "'w env \<Rightarrow> string \<Rightarrow> instant option" where
  "own_expiry env t = (case verify_secure_token env t of None \<Rightarrow> None | Some pl \<Rightarrow> p_exp pl)"

text \<open>
  A sweep agrees with a later verification \<open>env\<close> of \<open>t\<close> when it ran no later than the
  verification and the expiry its store holds for \<open>t\<close> is the token's own.
\<close>

fun sweep_agrees :: "'w env \<Rightarrow> string \<Rightarrow> 'w op \<Rightarrow> bool" where
  "sweep_agrees env t (OpCleanExpiredBlacklistedTokens env_s) =
     (now env_s \<le> now env \<and> token_expiry env_s t = own_expiry env t)"
| "sweep_agrees env t _ = True"

subsection \<open>Failure kinds\<close>

text \<open>
  The failure kinds of the design, read off the exceptions of the module: the module
  tells its R2R exceptions apart by message only (all carry status 401), an
  \<^verbatim>\<open>HTTPException\<close> is the internal fault, and status 404 is how the module recognises
  the store's "user not found".
\<close>

datatype kind =
    Revoked | Invalid | MalformedClaims | Expired | WrongTokenType
  | InvalidFormat | InvalidKey | InactiveAccount
  | InvalidCredentials | EmailNotVerified | NotFound | InternalFault | Unclassified

definition kind_of :: "exn \<Rightarrow> kind" where
  "kind_of e =
     (case e of
        R2RException sc m \<Rightarrow>
          if sc = 404 then NotFound
          else if m = ''Token has been invalidated'' then Revoked
          else if m = ''Invalid or expired token'' then Invalid
          else if m = ''Invalid token claims'' then MalformedClaims
          else if m = ''Token has expired'' then Expired
          else if m = ''Invalid refresh token'' then WrongTokenType
          else if m = ''Invalid API key format'' then InvalidFormat
          else if m = ''Invalid API key'' then InvalidKey
          else if m = ''User account is inactive'' then InactiveAccount
          else if m = ''Could not validate credentials'' then InvalidCredentials
          else if m = ''Invalid authentication credentials'' then InvalidCredentials
          else if m = ''Incorrect email or password'' then InvalidCredentials
          else if m = ''Email not verified'' then EmailNotVerified
          else Unclassified
      | HTTPException sc m \<Rightarrow> InternalFault
      | _ \<Rightarrow> Unclassified)"

subsection \<open>The verification-code table\<close>

text \<open>
  The users handler's three calls behind \<^verbatim>\<open>verify_email\<close> are not in the module. The
  table they work on: the codes, each bound to a user id, and the ids of the verified
  users.
\<close>

record directory =
  verification_codes :: "(string \<times> uid) list"
  verified :: "uid list"

text \<open>
  Modelled from the spec: the failure \<open>InvalidCode\<close> of the users handler, which is not in
  the module; the spec gives the kind only, and nothing below depends on the status or the
  message chosen here.
\<close>

definition invalid_code :: exn where
  "invalid_code = R2RException 400 ''Invalid or expired verification code''"

text \<open>
  Modelled from the spec: \<^verbatim>\<open>users_handler.get_user_id_by_verification_code\<close>, which is
  not in the module: it "looks up the user id bound to the code" and "fails with
  \<open>InvalidCode\<close> if no user is bound to it".
\<close>

definition ds_get_user_id_by_verification_code :: "string \<Rightarrow> directory \<Rightarrow> exn + uid" where
  "ds_get_user_id_by_verification_code c d =
     (case map_of (verification_codes d) c of
        None \<Rightarrow> Inl invalid_code
      | Some i \<Rightarrow> Inr i)"

text \<open>
  Modelled from the spec: \<^verbatim>\<open>users_handler.mark_user_as_verified\<close>, which is not in the
  module: it "marks verified" the user of the given id.
\<close>

definition ds_mark_user_as_verified :: "uid \<Rightarrow> directory \<Rightarrow> exn + directory" where
  "ds_mark_user_as_verified i d = Inr (d\<lparr>verified := List.insert i (verified d)\<rparr>)"

text \<open>
  Modelled from the spec: \<^verbatim>\<open>users_handler.remove_verification_code\<close>, which is not in the
  module: it "deletes the code".
\<close>

definition ds_remove_verification_code :: "string \<Rightarrow> directory \<Rightarrow> exn + directory" where
  "ds_remove_verification_code c d =
     Inr (d\<lparr>verification_codes := filter (\<lambda>b. fst b \<noteq> c) (verification_codes d)\<rparr>)"

definition with_directory :: "directory env \<Rightarrow> directory env" where
  "with_directory env =
     env\<lparr>get_user_id_by_verification_code := ds_get_user_id_by_verification_code,
         mark_user_as_verified := ds_mark_user_as_verified,
         remove_verification_code := ds_remove_verification_code\<rparr>"

subsection \<open>Concrete collaborators for the examples\<close>

text \<open>
  A small deployment over the verification-code table: the clock reads 1000, the cipher
  accepts the token strings below and nothing else (\<open>far.tok\<close> carries an expiry in year
  10000) and issues \<open>acc.tok\<close> and \<open>ref.new\<close>,
  the users handler knows \<open>a@x.com\<close> (password hash \<open>h1\<close>) and one API key \<open>pk\<close> with
  hash \<open>hk\<close>, and raises status 404 for any other email.
\<close>

definition alice :: User where
  "alice = \<lparr>uid = 1, email = ''a@x.com'', hashed_password = Some ''h1'',
            is_active = True, is_verified = False, name = Some ''Alice A''\<rparr>"

definition ex_tokens :: "string \<Rightarrow> payload option" where
  "ex_tokens t =
     (if t = ''acc.tok'' then
        Some \<lparr>p_sub = Some ''a@x.com'', p_token_type = Some ''access'',
              p_exp = Some 216000001000\<rparr>
      else if t = ''ref.new'' then
        Some \<lparr>p_sub = Some ''a@x.com'', p_token_type = Some ''refresh'',
              p_exp = Some 604800001000\<rparr>
      else if t = ''ref.tok'' then
        Some \<lparr>p_sub = Some ''a@x.com'', p_token_type = Some ''refresh'', p_exp = Some 1000\<rparr>
      else if t = ''old.tok'' then
        Some \<lparr>p_sub = Some ''a@x.com'', p_token_type = Some ''access'', p_exp = Some 999\<rparr>
      else if t = ''bad.tok'' then
        Some \<lparr>p_sub = Some ''a@x.com'', p_token_type = None, p_exp = Some 2000\<rparr>
      else if t = ''far.tok'' then
        Some \<lparr>p_sub = Some ''a@x.com'', p_token_type = Some ''access'',
              p_exp = Some 253402300800000000\<rparr>
      else None)"

definition ex_env :: "directory env" where
  "ex_env =
     \<lparr>now = 1000,
      access_token_lifetime_in_minutes = 3600,
      refresh_token_lifetime_in_days = 7,
      require_email_verification = True,
      generate_secure_token =
        (\<lambda>data expiry. if data ''token_type'' = Some ''refresh'' then ''ref.new''
                        else ''acc.tok''),
      verify_secure_token = ex_tokens,
      verify_api_key = (\<lambda>raw hashed. raw = ''secret'' \<and> hashed = ''hk''),
      verify_password = (\<lambda>plain hashed. Inr (plain = ''pw1'' \<and> hashed = ''h1'')),
      generate_verification_code = ''code42'',
      token_expiry = (\<lambda>t. case ex_tokens t of None \<Rightarrow> None | Some pl \<Rightarrow> p_exp pl),
      get_user_by_email =
        (\<lambda>em d. if em = ''a@x.com'' then Inr (Some alice)
                 else Inl (R2RException 404 ''User not found'')),
      get_user_by_id = (\<lambda>i d. Inr alice),
      get_api_key_record =
        (\<lambda>k d. if k = ''pk'' then Inr (Some \<lparr>hashed_key = ''hk'', user_id = 1\<rparr>)
                else Inr None),
      get_user_id_by_verification_code = ds_get_user_id_by_verification_code,
      mark_user_as_verified = ds_mark_user_as_verified,
      remove_verification_code = ds_remove_verification_code,
      store_reset_token = (\<lambda>i t e d. Inr d),
      send_password_reset_email = (\<lambda>em t ctx d. Inr d)\<rparr>"

definition ex_state :: "directory state" where
  "ex_state =
     \<lparr>blacklist = [],
      world = \<lparr>verification_codes = [(''code7'', 1)], verified = []\<rparr>\<rparr>"

section \<open>Properties\<close>

lemmas ex_defs = ex_env_def ex_state_def ex_tokens_def alice_def

lemmas range_defs = representable_def datetime_min_def datetime_max_def fromtimestamp_def
  datetime_add_def minutes_def hours_def days_def

subsection \<open>Helper facts\<close>

lemma dropWhile_absent: "c \<notin> set s \<Longrightarrow> dropWhile (\<lambda>x. x \<noteq> c) s = []"
  by (induction s) auto

lemma dropWhile_first: "c \<notin> set k \<Longrightarrow> dropWhile (\<lambda>x. x \<noteq> c) (k @ c # r) = c # r"
  by (induction k) auto

lemma takeWhile_first: "c \<notin> set k \<Longrightarrow> takeWhile (\<lambda>x. x \<noteq> c) (k @ c # r) = k"
  by (induction k) auto

lemma split_once_none: "c \<notin> set s \<Longrightarrow> split_once c s = [s]"
  by (simp add: split_once_def dropWhile_absent)

lemma split_once_first: "c \<notin> set k \<Longrightarrow> split_once c (k @ c # r) = [k, r]"
  by (simp add: split_once_def dropWhile_first takeWhile_first)

lemma blacklist_token_member: "is_token_blacklisted (blacklist_token st t) t"
  by (simp add: is_token_blacklisted_def blacklist_token_def)

lemma blacklist_token_mono: "set (blacklist st) \<subseteq> set (blacklist (blacklist_token st t))"
  by (auto simp: blacklist_token_def)

lemma decode_token_blacklisted:
  "is_token_blacklisted st t \<Longrightarrow>
     decode_token env st t = Inl (R2RException 401 ''Token has been invalidated'')"
  by (simp add: decode_token_def)

lemma refresh_blacklisted:
  "is_token_blacklisted st r \<Longrightarrow>
     refresh_access_token env st r = (Inl (R2RException 401 ''Token has been invalidated''), st)"
  by (simp add: refresh_access_token_def decode_token_blacklisted)

lemma refresh_state:
  "snd (refresh_access_token env st rt) = st
   \<or> snd (refresh_access_token env st rt) = blacklist_token st rt"
  by (simp add: refresh_access_token_def Let_def split: sum.splits)

lemma refresh_mono:
  "set (blacklist st) \<subseteq> set (blacklist (snd (refresh_access_token env st rt)))"
  using blacklist_token_mono [of st rt] refresh_state [of env st rt] by auto

lemma create_access_token_ok:
  "representable (now env + minutes (access_token_lifetime_in_minutes env)) \<Longrightarrow>
     create_access_token env d
       = Inr (generate_secure_token env (d(''token_type'' \<mapsto> ''access''))
               (now env + minutes (access_token_lifetime_in_minutes env)))"
  by (simp add: create_access_token_def datetime_add_def)

lemma create_access_token_overflow:
  "\<not> representable (now env + minutes (access_token_lifetime_in_minutes env)) \<Longrightarrow>
     create_access_token env d = Inl OverflowError"
  by (simp add: create_access_token_def datetime_add_def)

lemma create_refresh_token_ok:
  "representable (now env + days (refresh_token_lifetime_in_days env)) \<Longrightarrow>
     create_refresh_token env d
       = Inr (generate_secure_token env (d(''token_type'' \<mapsto> ''refresh''))
               (now env + days (refresh_token_lifetime_in_days env)))"
  by (simp add: create_refresh_token_def datetime_add_def)

lemma create_refresh_token_overflow:
  "\<not> representable (now env + days (refresh_token_lifetime_in_days env)) \<Longrightarrow>
     create_refresh_token env d = Inl OverflowError"
  by (simp add: create_refresh_token_def datetime_add_def)

lemma exec_mono: "\<not> is_sweep x \<Longrightarrow> set (blacklist st) \<subseteq> set (blacklist (exec x st))"
  using refresh_mono [of st] blacklist_token_mono [of st]
  by (cases x) (simp_all add: logout_def)

lemma run_mono:
  "\<forall>x\<in>set xs. \<not> is_sweep x \<Longrightarrow> set (blacklist st) \<subseteq> set (blacklist (run xs st))"
proof (induction xs arbitrary: st)
  case Nil
  then show ?case by simp
next
  case (Cons x xs)
  have "set (blacklist st) \<subseteq> set (blacklist (exec x st))"
    using Cons.prems by (simp add: exec_mono)
  moreover have "set (blacklist (exec x st)) \<subseteq> set (blacklist (run xs (exec x st)))"
    using Cons.prems by (intro Cons.IH) simp
  ultimately show ?case by simp
qed

lemma sweep_removes:
  "set (blacklist (clean_expired_blacklisted_tokens env st))
     = {u \<in> set (blacklist st). \<not> purges (OpCleanExpiredBlacklistedTokens env) u}"
  by (auto simp: clean_expired_blacklisted_tokens_def purge_expired_def split: option.splits)

lemma exec_keeps:
  "t \<in> set (blacklist st) \<Longrightarrow> \<not> purges x t \<Longrightarrow> t \<in> set (blacklist (exec x st))"
proof (cases "is_sweep x")
  case True
  assume "t \<in> set (blacklist st)" "\<not> purges x t"
  with True show ?thesis
    by (cases x) (simp_all add: sweep_removes)
next
  case False
  assume "t \<in> set (blacklist st)"
  with exec_mono [OF False, of st] show ?thesis by blast
qed

lemma run_keeps_or_purged:
  "t \<in> set (blacklist st) \<Longrightarrow>
     t \<in> set (blacklist (run xs st)) \<or> (\<exists>x\<in>set xs. purges x t)"
proof (induction xs arbitrary: st)
  case Nil
  then show ?case by simp
next
  case (Cons x xs)
  show ?case
  proof (cases "purges x t")
    case True
    then show ?thesis by simp
  next
    case False
    with Cons.prems have "t \<in> set (blacklist (exec x st))" by (rule exec_keeps)
    from Cons.IH [OF this] show ?thesis by auto
  qed
qed

lemma purged_is_expired:
  "purges x t \<Longrightarrow> sweep_agrees env t x \<Longrightarrow> \<exists>e. own_expiry env t = Some e \<and> e < now env"
  by (cases x) (auto split: option.splits)

lemma decode_token_expired_token:
  "own_expiry env t = Some e \<Longrightarrow> e < now env \<Longrightarrow> decode_token env st t \<noteq> Inr td"
  by (auto simp: own_expiry_def decode_token_def fromtimestamp_def split: option.splits)

lemma authenticate_api_key_kinds:
  "authenticate_api_key env w k = Inl e \<Longrightarrow>
     e = R2RException 401 ''Invalid API key format'' \<or> e = R2RException 401 ''Invalid API key''
     \<or> e = R2RException 401 ''User account is inactive''
     \<or> (\<exists>i. get_api_key_record env i w = Inl e) \<or> (\<exists>i. get_user_by_id env i w = Inl e)"
  unfolding authenticate_api_key_def
  by (auto split: list.splits sum.splits option.splits if_splits)

lemma reset_handler_404:
  "reset_handler (R2RException 404 m) w
     = (Inr ''If the email exists, a reset link has been sent'', w)"
  by (simp add: reset_handler_def)

lemma reset_handler_other:
  "\<forall>m. e \<noteq> R2RException 404 m \<Longrightarrow> reset_handler e w = (Inl e, w)"
  by (cases e) (auto simp: reset_handler_def)

lemma reset_handler_message:
  "fst (reset_handler e w) = Inr x \<Longrightarrow> x = ''If the email exists, a reset link has been sent''"
  by (cases e) (auto simp: reset_handler_def split: if_splits)

lemma with_directory_simps:
  "get_user_id_by_verification_code (with_directory env) = ds_get_user_id_by_verification_code"
  "mark_user_as_verified (with_directory env) = ds_mark_user_as_verified"
  "remove_verification_code (with_directory env) = ds_remove_verification_code"
  by (simp_all add: with_directory_def)

lemma map_of_filter_fst: "map_of (filter (\<lambda>b. fst b \<noteq> c) xs) c = None"
  by (induction xs) auto

subsection \<open>C1: the credential resolver\<close>

text \<open>
  The statement of C1 as written, at concrete inputs. On \<open>abc\<close> the token attempt fails
  (the cipher rejects it) and the API-key attempt fails (no separator): \<^verbatim>\<open>user\<close> ends
  with the API-key failure "Invalid API key format", which is not one of the
  InvalidCredentials exceptions. On \<open>a.b\<close> it ends with "Invalid API key": the two failures
  differ, so the reason of the second attempt is visible. With a users handler that returns
  \<^verbatim>\<open>None\<close> for every email, the accepted token \<open>acc.tok\<close> has no user: the
  "Invalid authentication credentials" raised for it is caught by the handler of \<^verbatim>\<open>user\<close>
  itself and the outcome is again the API-key failure.
\<close>

theorem user_reveals_api_key_failure:
  "decode_token ex_env ex_state ''abc'' = Inl (R2RException 401 ''Invalid or expired token'')
   \<and> authenticate_api_key ex_env (world ex_state) ''abc''
       = Inl (R2RException 401 ''Invalid API key format'')
   \<and> user ex_env ex_state ''abc'' = Inl (R2RException 401 ''Invalid API key format'')
   \<and> kind_of (R2RException 401 ''Invalid API key format'') \<noteq> InvalidCredentials
   \<and> user ex_env ex_state ''a.b'' = Inl (R2RException 401 ''Invalid API key'')
   \<and> kind_of (R2RException 401 ''Invalid API key'') \<noteq> InvalidCredentials
   \<and> decode_token ex_env ex_state ''acc.tok''
       = Inr \<lparr>td_email = ''a@x.com'', td_token_type = ''access'', td_exp = 216000001000\<rparr>
   \<and> user (ex_env\<lparr>get_user_by_email := \<lambda>em d. Inr None\<rparr>) ex_state ''acc.tok''
       = Inl (R2RException 401 ''Invalid API key'')"
  by (simp add: user_def user_jwt_def decode_token_def authenticate_api_key_def split_once_def
      removeprefix_def is_token_blacklisted_def ex_defs kind_of_def range_defs)

text \<open>
  C1, amended. For every credential string on which token verification fails with an
  \<^verbatim>\<open>R2RException\<close> (revoked, rejected by the cipher, claims missing, expired),
  \<^verbatim>\<open>user\<close> returns exactly what \<^verbatim>\<open>authenticate_api_key\<close> returns on the string with
  a leading \<open>Bearer \<close> removed: the reason of the token failure never reaches the caller,
  and a failure of the whole resolution is the failure of the API-key attempt, of kind
  InvalidFormat, InvalidKey or InactiveAccount (or an exception raised by the store's
  key-record or user lookup). The range error of the expiry conversion is not an
  \<^verbatim>\<open>R2RException\<close>: \<^verbatim>\<open>user\<close> does not catch it and makes no second attempt.
\<close>

theorem user_falls_back_to_api_key:
  "(decode_token env st t = Inl (R2RException sc m) \<longrightarrow>
      user env st t = authenticate_api_key env (world st) (removeprefix ''Bearer '' t)
      \<and> (\<forall>e'. user env st t = Inl e' \<longrightarrow>
            kind_of e' \<in> {InvalidFormat, InvalidKey, InactiveAccount}
            \<or> (\<exists>i. get_api_key_record env i (world st) = Inl e')
            \<or> (\<exists>i. get_user_by_id env i (world st) = Inl e')))
   \<and> (decode_token env st t = Inl ValueError \<longrightarrow> user env st t = Inl ValueError)"
proof (intro conjI impI allI)
  assume d: "decode_token env st t = Inl (R2RException sc m)"
  show u: "user env st t = authenticate_api_key env (world st) (removeprefix ''Bearer '' t)"
    using d by (simp add: user_def user_jwt_def)
  fix e'
  assume "user env st t = Inl e'"
  then have "authenticate_api_key env (world st) (removeprefix ''Bearer '' t) = Inl e'"
    using u by simp
  from authenticate_api_key_kinds [OF this]
  show "kind_of e' \<in> {InvalidFormat, InvalidKey, InactiveAccount}
            \<or> (\<exists>i. get_api_key_record env i (world st) = Inl e')
            \<or> (\<exists>i. get_user_by_id env i (world st) = Inl e')"
    by (auto simp: kind_of_def)
next
  assume "decode_token env st t = Inl ValueError"
  then show "user env st t = Inl ValueError"
    by (simp add: user_def user_jwt_def)
qed

theorem user_falls_back_to_api_key_witness:
  "decode_token ex_env ex_state ''Bearer pk.secret''
     = Inl (R2RException 401 ''Invalid or expired token'')
   \<and> user ex_env ex_state ''Bearer pk.secret''
       = authenticate_api_key ex_env (world ex_state) ''pk.secret''
   \<and> decode_token ex_env ex_state ''zz.secret''
     = Inl (R2RException 401 ''Invalid or expired token'')
   \<and> user ex_env ex_state ''zz.secret'' = Inl (R2RException 401 ''Invalid API key'')
   \<and> kind_of (R2RException 401 ''Invalid API key'') = InvalidKey
   \<and> decode_token ex_env ex_state ''far.tok'' = Inl ValueError
   \<and> user ex_env ex_state ''far.tok'' = Inl ValueError"
proof -
  have h1: "decode_token ex_env ex_state ''Bearer pk.secret''
     = Inl (R2RException 401 ''Invalid or expired token'')"
    by (simp add: decode_token_def is_token_blacklisted_def ex_defs)
  have h2: "decode_token ex_env ex_state ''zz.secret''
     = Inl (R2RException 401 ''Invalid or expired token'')"
    by (simp add: decode_token_def is_token_blacklisted_def ex_defs)
  have h3: "decode_token ex_env ex_state ''far.tok'' = Inl ValueError"
    by (simp add: decode_token_def is_token_blacklisted_def ex_defs range_defs)
  have a: "authenticate_api_key ex_env (world ex_state) ''zz.secret''
     = Inl (R2RException 401 ''Invalid API key'')"
    by (simp add: authenticate_api_key_def split_once_def ex_defs)
  note t1 = user_falls_back_to_api_key [where env = ex_env and st = ex_state
      and t = "''Bearer pk.secret''", THEN conjunct1, rule_format, OF h1, THEN conjunct1]
  note t2 = user_falls_back_to_api_key [where env = ex_env and st = ex_state
      and t = "''zz.secret''", THEN conjunct1, rule_format, OF h2, THEN conjunct1]
  note t3 = user_falls_back_to_api_key [where env = ex_env and st = ex_state
      and t = "''far.tok''", THEN conjunct2, rule_format, OF h3]
  show ?thesis
    using h1 h2 h3 a t1 t2 t3 by (simp add: removeprefix_def kind_of_def)
qed

subsection \<open>C2: refresh rotation\<close>

text \<open>
  C2. For every token string \<open>r\<close> that verifies successfully, \<^verbatim>\<open>refresh_access_token\<close>
  fails with "Invalid refresh token" (WrongTokenType, the state unchanged) when the decoded
  kind is not \<open>refresh\<close>. When it is, the call blacklists \<open>r\<close> first; then, the two new
  expiries (the clock plus the access and the refresh lifetime) being instants a
  \<^verbatim>\<open>datetime\<close> holds, it returns an access and a refresh token that the cipher signed
  for the subject of \<open>r\<close>; with an expiry out of that range the issue raises
  \<^verbatim>\<open>OverflowError\<close>, \<open>r\<close> staying blacklisted. In both cases a second call with the
  same string, whatever the collaborators and the clock then are, fails with
  "Token has been invalidated" (Revoked).
\<close>

theorem refresh_access_token_rotation:
  assumes "decode_token env st r = Inr td"
  shows "(td_token_type td \<noteq> ''refresh'' \<longrightarrow>
            refresh_access_token env st r = (Inl (R2RException 401 ''Invalid refresh token''), st))
       \<and> (td_token_type td = ''refresh'' \<longrightarrow>
            snd (refresh_access_token env st r) = blacklist_token st r
            \<and> (representable (now env + minutes (access_token_lifetime_in_minutes env))
                \<and> representable (now env + days (refresh_token_lifetime_in_days env)) \<longrightarrow>
               fst (refresh_access_token env st r)
                 = Inr \<lparr>access_token =
                          \<lparr>token = generate_secure_token env
                                     [''sub'' \<mapsto> td_email td, ''token_type'' \<mapsto> ''access'']
                                     (now env + minutes (access_token_lifetime_in_minutes env)),
                           token_type = ''access''\<rparr>,
                        refresh_token =
                          \<lparr>token = generate_secure_token env
                                     [''sub'' \<mapsto> td_email td, ''token_type'' \<mapsto> ''refresh'']
                                     (now env + days (refresh_token_lifetime_in_days env)),
                           token_type = ''refresh''\<rparr>\<rparr>)
            \<and> (\<not> (representable (now env + minutes (access_token_lifetime_in_minutes env))
                   \<and> representable (now env + days (refresh_token_lifetime_in_days env))) \<longrightarrow>
               fst (refresh_access_token env st r) = Inl OverflowError)
            \<and> (\<forall>env2. refresh_access_token env2 (snd (refresh_access_token env st r)) r
                   = (Inl (R2RException 401 ''Token has been invalidated''),
                      snd (refresh_access_token env st r))))"
proof (intro conjI impI)
  assume "td_token_type td \<noteq> ''refresh''"
  then show "refresh_access_token env st r = (Inl (R2RException 401 ''Invalid refresh token''), st)"
    using assms by (simp add: refresh_access_token_def)
next
  assume k: "td_token_type td = ''refresh''"
  have s: "snd (refresh_access_token env st r) = blacklist_token st r"
    using assms k by (simp add: refresh_access_token_def Let_def split: sum.splits)
  show "snd (refresh_access_token env st r) = blacklist_token st r" by (rule s)
  show "\<forall>env2. refresh_access_token env2 (snd (refresh_access_token env st r)) r
                   = (Inl (R2RException 401 ''Token has been invalidated''),
                      snd (refresh_access_token env st r))"
    using blacklist_token_member [of st r] by (simp add: s refresh_blacklisted)
  {
    assume "representable (now env + minutes (access_token_lifetime_in_minutes env))
              \<and> representable (now env + days (refresh_token_lifetime_in_days env))"
    then show "fst (refresh_access_token env st r)
                 = Inr \<lparr>access_token =
                          \<lparr>token = generate_secure_token env
                                     [''sub'' \<mapsto> td_email td, ''token_type'' \<mapsto> ''access'']
                                     (now env + minutes (access_token_lifetime_in_minutes env)),
                           token_type = ''access''\<rparr>,
                        refresh_token =
                          \<lparr>token = generate_secure_token env
                                     [''sub'' \<mapsto> td_email td, ''token_type'' \<mapsto> ''refresh'']
                                     (now env + days (refresh_token_lifetime_in_days env)),
                           token_type = ''refresh''\<rparr>\<rparr>"
      using assms k
      by (simp add: refresh_access_token_def Let_def create_access_token_ok
          create_refresh_token_ok)
  }
  {
    assume n: "\<not> (representable (now env + minutes (access_token_lifetime_in_minutes env))
                   \<and> representable (now env + days (refresh_token_lifetime_in_days env)))"
    show "fst (refresh_access_token env st r) = Inl OverflowError"
    proof (cases "representable (now env + minutes (access_token_lifetime_in_minutes env))")
      case True
      with n have "\<not> representable (now env + days (refresh_token_lifetime_in_days env))"
        by simp
      then show ?thesis
        using assms k True
        by (simp add: refresh_access_token_def Let_def create_access_token_ok
            create_refresh_token_overflow)
    next
      case False
      then show ?thesis
        using assms k
        by (simp add: refresh_access_token_def Let_def create_access_token_overflow)
    qed
  }
qed

theorem refresh_access_token_rotation_witness:
  "decode_token ex_env ex_state ''ref.tok''
     = Inr \<lparr>td_email = ''a@x.com'', td_token_type = ''refresh'', td_exp = 1000\<rparr>
   \<and> fst (refresh_access_token ex_env ex_state ''ref.tok'')
       = Inr \<lparr>access_token = \<lparr>token = ''acc.tok'', token_type = ''access''\<rparr>,
              refresh_token = \<lparr>token = ''ref.new'', token_type = ''refresh''\<rparr>\<rparr>
   \<and> snd (refresh_access_token ex_env ex_state ''ref.tok'')
       = blacklist_token ex_state ''ref.tok''
   \<and> fst (refresh_access_token ex_env (snd (refresh_access_token ex_env ex_state ''ref.tok''))
            ''ref.tok'')
       = Inl (R2RException 401 ''Token has been invalidated'')
   \<and> decode_token ex_env ex_state ''acc.tok''
       = Inr \<lparr>td_email = ''a@x.com'', td_token_type = ''access'', td_exp = 216000001000\<rparr>
   \<and> refresh_access_token ex_env ex_state ''acc.tok''
       = (Inl (R2RException 401 ''Invalid refresh token''), ex_state)"
proof -
  have h1: "decode_token ex_env ex_state ''ref.tok''
     = Inr \<lparr>td_email = ''a@x.com'', td_token_type = ''refresh'', td_exp = 1000\<rparr>"
    by (simp add: decode_token_def is_token_blacklisted_def ex_defs range_defs)
  have h2: "decode_token ex_env ex_state ''acc.tok''
       = Inr \<lparr>td_email = ''a@x.com'', td_token_type = ''access'', td_exp = 216000001000\<rparr>"
    by (simp add: decode_token_def is_token_blacklisted_def ex_defs range_defs)
  have g: "generate_secure_token ex_env [''sub'' \<mapsto> ''a@x.com'', ''token_type'' \<mapsto> ''access'']
             (now ex_env + minutes (access_token_lifetime_in_minutes ex_env)) = ''acc.tok''"
     "generate_secure_token ex_env [''sub'' \<mapsto> ''a@x.com'', ''token_type'' \<mapsto> ''refresh'']
             (now ex_env + days (refresh_token_lifetime_in_days ex_env)) = ''ref.new''"
    by (simp_all add: ex_defs)
  have k: "td_token_type \<lparr>td_email = ''a@x.com'', td_token_type = ''refresh'', td_exp = 1000\<rparr>
             = ''refresh''"
    by simp
  have p: "representable (now ex_env + minutes (access_token_lifetime_in_minutes ex_env))
           \<and> representable (now ex_env + days (refresh_token_lifetime_in_days ex_env))"
    by (simp add: ex_env_def range_defs)
  note r = refresh_access_token_rotation [OF h1, THEN conjunct2, rule_format, OF k]
  have a: "fst (refresh_access_token ex_env ex_state ''ref.tok'')
       = Inr \<lparr>access_token = \<lparr>token = ''acc.tok'', token_type = ''access''\<rparr>,
              refresh_token = \<lparr>token = ''ref.new'', token_type = ''refresh''\<rparr>\<rparr>"
    using r [THEN conjunct2, THEN conjunct1, rule_format, OF p] by (simp add: g)
  have b: "fst (refresh_access_token ex_env (snd (refresh_access_token ex_env ex_state ''ref.tok''))
            ''ref.tok'')
       = Inl (R2RException 401 ''Token has been invalidated'')"
    using r [THEN conjunct2, THEN conjunct2, THEN conjunct2, rule_format, of ex_env] by simp
  have c: "refresh_access_token ex_env ex_state ''acc.tok''
       = (Inl (R2RException 401 ''Invalid refresh token''), ex_state)"
    using refresh_access_token_rotation [OF h2] by simp
  show ?thesis
    using h1 h2 a b c r [THEN conjunct1] by simp
qed

subsection \<open>C3: revocation\<close>

text \<open>
  The statement of C3 as written, at a concrete input: \<open>old.tok\<close> is logged out and so
  blacklisted; the maintenance sweep \<^verbatim>\<open>clean_expired_blacklisted_tokens\<close> then runs at
  an instant past the token's expiry and removes the entry; the next \<^verbatim>\<open>decode_token\<close>
  fails with "Token has expired", not with "Token has been invalidated".
\<close>

theorem sweep_unrevokes:
  "is_token_blacklisted (snd (logout ex_state ''old.tok'')) ''old.tok''
   \<and> \<not> is_token_blacklisted
         (run [OpCleanExpiredBlacklistedTokens ex_env] (snd (logout ex_state ''old.tok'')))
         ''old.tok''
   \<and> decode_token ex_env
         (run [OpCleanExpiredBlacklistedTokens ex_env] (snd (logout ex_state ''old.tok'')))
         ''old.tok''
       = Inl (R2RException 401 ''Token has expired'')"
  by (simp add: logout_def blacklist_token_def clean_expired_blacklisted_tokens_def
      purge_expired_def decode_token_def is_token_blacklisted_def ex_defs range_defs)

text \<open>
  C3, amended. Once \<^verbatim>\<open>logout\<close> was called on a token string \<open>t\<close>, and whatever
  operations follow, with whatever collaborators and clocks:
  \<^item> every later \<^verbatim>\<open>decode_token\<close> of \<open>t\<close> fails with "Token has been invalidated"
    (Revoked) as long as no sweep in between held for \<open>t\<close> an expiry before its clock;
  \<^item> \<open>t\<close> is never accepted again, sweeps included, when each sweep ran no later than the
    verification and held for \<open>t\<close> the token's own expiry: the verification then fails
    with Revoked or, the entry purged, because the token has expired;
  \<^item> over operations other than the sweep the blacklist only grows;
  \<^item> the sweep removes exactly the entries whose stored expiry is before its clock.
\<close>

theorem revoked_stays_revoked:
  "((\<forall>x\<in>set xs. \<not> purges x t) \<longrightarrow>
      decode_token env (run xs (snd (logout st t))) t
        = Inl (R2RException 401 ''Token has been invalidated''))
   \<and> ((\<forall>x\<in>set xs. sweep_agrees env t x) \<longrightarrow>
      (\<forall>td. decode_token env (run xs (snd (logout st t))) t \<noteq> Inr td))
   \<and> ((\<forall>x\<in>set xs. \<not> is_sweep x) \<longrightarrow> set (blacklist st) \<subseteq> set (blacklist (run xs st)))
   \<and> set (blacklist (clean_expired_blacklisted_tokens env_s st))
       = {u \<in> set (blacklist st).
            case token_expiry env_s u of None \<Rightarrow> True | Some e \<Rightarrow> \<not> e < now env_s}"
proof (intro conjI impI allI)
  have l: "t \<in> set (blacklist (snd (logout st t)))"
    using blacklist_token_member [of st t] by (simp add: logout_def is_token_blacklisted_def)
  note k = run_keeps_or_purged [OF l, of xs]
  {
    assume "\<forall>x\<in>set xs. \<not> purges x t"
    with k have "is_token_blacklisted (run xs (snd (logout st t))) t"
      unfolding is_token_blacklisted_def by blast
    then show "decode_token env (run xs (snd (logout st t))) t
        = Inl (R2RException 401 ''Token has been invalidated'')"
      by (rule decode_token_blacklisted)
  }
  {
    fix td
    assume a: "\<forall>x\<in>set xs. sweep_agrees env t x"
    show "decode_token env (run xs (snd (logout st t))) t \<noteq> Inr td"
    proof (cases "t \<in> set (blacklist (run xs (snd (logout st t))))")
      case True
      then show ?thesis
        using decode_token_blacklisted [of "run xs (snd (logout st t))" t env]
        by (simp add: is_token_blacklisted_def)
    next
      case False
      with k obtain x where "x \<in> set xs" "purges x t" by blast
      with a obtain e where "own_expiry env t = Some e" "e < now env"
        using purged_is_expired by blast
      then show ?thesis by (rule decode_token_expired_token)
    qed
  }
  {
    assume "\<forall>x\<in>set xs. \<not> is_sweep x"
    then show "set (blacklist st) \<subseteq> set (blacklist (run xs st))" by (rule run_mono)
  }
  show "set (blacklist (clean_expired_blacklisted_tokens env_s st))
       = {u \<in> set (blacklist st).
            case token_expiry env_s u of None \<Rightarrow> True | Some e \<Rightarrow> \<not> e < now env_s}"
    by (auto simp: clean_expired_blacklisted_tokens_def purge_expired_def split: option.splits)
qed

theorem revoked_stays_revoked_witness:
  "decode_token ex_env
     (run [OpRefreshAccessToken ex_env ''ref.tok'', OpCleanExpiredBlacklistedTokens ex_env,
           OpVerifyEmail ex_env ''a@x.com'' ''code7'', OpLogout ''old.tok'']
        (snd (logout ex_state ''acc.tok'')))
     ''acc.tok''
   = Inl (R2RException 401 ''Token has been invalidated'')
   \<and> (\<forall>td. decode_token ex_env
         (run [OpCleanExpiredBlacklistedTokens ex_env, OpLogin ex_env ''a@x.com'' ''pw1'']
            (snd (logout ex_state ''old.tok'')))
         ''old.tok'' \<noteq> Inr td)"
proof -
  have h1: "\<forall>x\<in>set [OpRefreshAccessToken ex_env ''ref.tok'',
                      OpCleanExpiredBlacklistedTokens ex_env,
                      OpVerifyEmail ex_env ''a@x.com'' ''code7'', OpLogout ''old.tok''].
              \<not> purges x ''acc.tok''"
    by (simp add: ex_defs)
  have h2: "\<forall>x\<in>set [OpCleanExpiredBlacklistedTokens ex_env, OpLogin ex_env ''a@x.com'' ''pw1''].
              sweep_agrees ex_env ''old.tok'' x"
    by (simp add: own_expiry_def ex_defs)
  note t1 = revoked_stays_revoked [where env = ex_env and st = ex_state and t = "''acc.tok''",
      THEN conjunct1, THEN mp, OF h1]
  note t2 = revoked_stays_revoked [where env = ex_env and st = ex_state and t = "''old.tok''",
      THEN conjunct2, THEN conjunct1, THEN mp, OF h2]
  show ?thesis
    using t1 t2 by blast
qed

subsection \<open>C4: the order of the checks of \<^verbatim>\<open>decode_token\<close>\<close>

text \<open>
  C4. \<^verbatim>\<open>decode_token\<close> decides in this order: a blacklisted string fails with
  "Token has been invalidated" (Revoked) whatever the cipher would say; otherwise a token the
  cipher rejects fails with "Invalid or expired token" (Invalid); otherwise a payload without
  subject, kind or expiry fails with "Invalid token claims" (MalformedClaims); otherwise the
  expiry is decoded, and a decoded expiry earlier than the clock of the call, compared by
  \<^verbatim>\<open>decode_token\<close> itself, fails with "Token has expired" (Expired); otherwise the
  claims (email, kind, expiry) are returned. The expiry decodes when it is an instant a
  \<^verbatim>\<open>datetime\<close> holds (years 1 to 9999); for any other the conversion raises its range
  error and there is no decoded expiry to compare.
\<close>

theorem decode_token_order:
  "(is_token_blacklisted st t \<longrightarrow>
      decode_token env st t = Inl (R2RException 401 ''Token has been invalidated''))
   \<and> (\<not> is_token_blacklisted st t \<and> verify_secure_token env t = None \<longrightarrow>
      decode_token env st t = Inl (R2RException 401 ''Invalid or expired token''))
   \<and> (\<not> is_token_blacklisted st t \<and> verify_secure_token env t = Some pl
        \<and> (p_sub pl = None \<or> p_token_type pl = None \<or> p_exp pl = None) \<longrightarrow>
      decode_token env st t = Inl (R2RException 401 ''Invalid token claims''))
   \<and> (\<not> is_token_blacklisted st t \<and> verify_secure_token env t = Some pl
        \<and> p_sub pl = Some em \<and> p_token_type pl = Some tt \<and> p_exp pl = Some ex
        \<and> representable ex \<and> ex < now env \<longrightarrow>
      decode_token env st t = Inl (R2RException 401 ''Token has expired''))
   \<and> (\<not> is_token_blacklisted st t \<and> verify_secure_token env t = Some pl
        \<and> p_sub pl = Some em \<and> p_token_type pl = Some tt \<and> p_exp pl = Some ex
        \<and> representable ex \<and> \<not> ex < now env \<longrightarrow>
      decode_token env st t = Inr \<lparr>td_email = em, td_token_type = tt, td_exp = ex\<rparr>)
   \<and> (\<not> is_token_blacklisted st t \<and> verify_secure_token env t = Some pl
        \<and> p_sub pl = Some em \<and> p_token_type pl = Some tt \<and> p_exp pl = Some ex
        \<and> \<not> representable ex \<longrightarrow>
      decode_token env st t = Inl ValueError)"
  by (auto simp: decode_token_def fromtimestamp_def split: option.splits)

theorem decode_token_order_witness:
  "decode_token ex_env (blacklist_token ex_state ''acc.tok'') ''acc.tok''
     = Inl (R2RException 401 ''Token has been invalidated'')
   \<and> decode_token ex_env ex_state ''zzz'' = Inl (R2RException 401 ''Invalid or expired token'')
   \<and> decode_token ex_env ex_state ''bad.tok'' = Inl (R2RException 401 ''Invalid token claims'')
   \<and> decode_token ex_env ex_state ''old.tok'' = Inl (R2RException 401 ''Token has expired'')
   \<and> decode_token ex_env ex_state ''acc.tok''
       = Inr \<lparr>td_email = ''a@x.com'', td_token_type = ''access'', td_exp = 216000001000\<rparr>
   \<and> decode_token ex_env ex_state ''far.tok'' = Inl ValueError"
  using decode_token_order [where env = ex_env and st = "blacklist_token ex_state ''acc.tok''"
          and t = "''acc.tok''"]
        decode_token_order [where env = ex_env and st = ex_state and t = "''zzz''"]
        decode_token_order [where env = ex_env and st = ex_state and t = "''bad.tok''"
          and pl = "\<lparr>p_sub = Some ''a@x.com'', p_token_type = None, p_exp = Some 2000\<rparr>"]
        decode_token_order [where env = ex_env and st = ex_state and t = "''old.tok''"
          and pl = "\<lparr>p_sub = Some ''a@x.com'', p_token_type = Some ''access'', p_exp = Some 999\<rparr>"
          and em = "''a@x.com''" and tt = "''access''" and ex = 999]
        decode_token_order [where env = ex_env and st = ex_state and t = "''acc.tok''"
          and pl = "\<lparr>p_sub = Some ''a@x.com'', p_token_type = Some ''access'',
                     p_exp = Some 216000001000\<rparr>"
          and em = "''a@x.com''" and tt = "''access''" and ex = 216000001000]
        decode_token_order [where env = ex_env and st = ex_state and t = "''far.tok''"
          and pl = "\<lparr>p_sub = Some ''a@x.com'', p_token_type = Some ''access'',
                     p_exp = Some 253402300800000000\<rparr>"
          and em = "''a@x.com''" and tt = "''access''" and ex = 253402300800000000]
  by (simp add: ex_defs is_token_blacklisted_def blacklist_token_def representable_def
      datetime_min_def datetime_max_def)

subsection \<open>C5: an issued access token verifies\<close>

text \<open>
  C5. For every subject \<open>s\<close>: when the expiry, the instant of issue plus the access
  lifetime, is an instant a \<^verbatim>\<open>datetime\<close> holds, \<^verbatim>\<open>create_access_token({"sub": s})\<close>
  issues a token; when moreover the cipher gives back, for the token it signed, the claims
  and the expiry it was given, the token is not blacklisted and is fresh (the clock of the
  verification is not past the expiry), \<^verbatim>\<open>decode_token\<close> of the issued token succeeds
  with kind \<open>access\<close> and subject \<open>s\<close>.
\<close>

theorem issued_access_token_verifies:
  assumes "representable (now env + minutes (access_token_lifetime_in_minutes env))"
    and "verify_secure_token env'
             (generate_secure_token env [''sub'' \<mapsto> s, ''token_type'' \<mapsto> ''access'']
                (now env + minutes (access_token_lifetime_in_minutes env)))
           = Some \<lparr>p_sub = Some s, p_token_type = Some ''access'',
                   p_exp = Some (now env + minutes (access_token_lifetime_in_minutes env))\<rparr>"
    and "\<not> is_token_blacklisted st
             (generate_secure_token env [''sub'' \<mapsto> s, ''token_type'' \<mapsto> ''access'']
                (now env + minutes (access_token_lifetime_in_minutes env)))"
    and "now env' \<le> now env + minutes (access_token_lifetime_in_minutes env)"
  shows "\<exists>tok. create_access_token env [''sub'' \<mapsto> s] = Inr tok
           \<and> decode_token env' st tok
               = Inr \<lparr>td_email = s, td_token_type = ''access'',
                      td_exp = now env + minutes (access_token_lifetime_in_minutes env)\<rparr>"
  using assms
  by (simp add: create_access_token_ok decode_token_def fromtimestamp_def)

theorem issued_access_token_verifies_witness:
  "create_access_token ex_env [''sub'' \<mapsto> ''a@x.com''] = Inr ''acc.tok''
   \<and> decode_token ex_env ex_state ''acc.tok''
     = Inr \<lparr>td_email = ''a@x.com'', td_token_type = ''access'', td_exp = 216000001000\<rparr>"
proof -
  have e: "now ex_env + minutes (access_token_lifetime_in_minutes ex_env) = 216000001000"
    by (simp add: minutes_def ex_defs)
  have g: "generate_secure_token ex_env [''sub'' \<mapsto> ''a@x.com'', ''token_type'' \<mapsto> ''access'']
             216000001000 = ''acc.tok''"
    by (simp add: ex_defs)
  have h0: "representable (now ex_env + minutes (access_token_lifetime_in_minutes ex_env))"
    unfolding e by (simp add: representable_def datetime_min_def datetime_max_def)
  have h1: "verify_secure_token ex_env
             (generate_secure_token ex_env [''sub'' \<mapsto> ''a@x.com'', ''token_type'' \<mapsto> ''access'']
                (now ex_env + minutes (access_token_lifetime_in_minutes ex_env)))
           = Some \<lparr>p_sub = Some ''a@x.com'', p_token_type = Some ''access'',
                   p_exp = Some (now ex_env + minutes (access_token_lifetime_in_minutes ex_env))\<rparr>"
    unfolding e by (simp add: ex_defs)
  have h2: "\<not> is_token_blacklisted ex_state
             (generate_secure_token ex_env [''sub'' \<mapsto> ''a@x.com'', ''token_type'' \<mapsto> ''access'']
                (now ex_env + minutes (access_token_lifetime_in_minutes ex_env)))"
    by (simp add: is_token_blacklisted_def ex_state_def)
  have h3: "now ex_env \<le> now ex_env + minutes (access_token_lifetime_in_minutes ex_env)"
    unfolding e by (simp add: ex_defs)
  have c: "create_access_token ex_env [''sub'' \<mapsto> ''a@x.com''] = Inr ''acc.tok''"
    using h0 by (simp add: create_access_token_ok e g)
  show ?thesis
    using issued_access_token_verifies [OF h0 h1 h2 h3] c by (auto simp: e)
qed

subsection \<open>C6: API-key failures\<close>

text \<open>
  C6. \<^verbatim>\<open>authenticate_api_key\<close> splits the composite key at its first \<open>.\<close>: a string
  without the separator fails with "Invalid API key format" (InvalidFormat); a public id
  with no stored record and a record whose hash does not match the raw secret fail with the
  very same exception "Invalid API key" (InvalidKey); a matching key of an inactive user fails
  with "User account is inactive" (InactiveAccount); a matching key of an active user
  resolves to that user.
\<close>

theorem authenticate_api_key_failures:
  "(CHR ''.'' \<notin> set api_key \<longrightarrow>
      authenticate_api_key env w api_key = Inl (R2RException 401 ''Invalid API key format''))
   \<and> (CHR ''.'' \<notin> set key_id \<and> get_api_key_record env key_id w = Inr None \<longrightarrow>
      authenticate_api_key env w (key_id @ CHR ''.'' # raw_key)
        = Inl (R2RException 401 ''Invalid API key''))
   \<and> (CHR ''.'' \<notin> set key_id \<and> get_api_key_record env key_id w = Inr (Some kr)
        \<and> \<not> verify_api_key env raw_key (hashed_key kr) \<longrightarrow>
      authenticate_api_key env w (key_id @ CHR ''.'' # raw_key)
        = Inl (R2RException 401 ''Invalid API key''))
   \<and> (CHR ''.'' \<notin> set key_id \<and> get_api_key_record env key_id w = Inr (Some kr)
        \<and> verify_api_key env raw_key (hashed_key kr)
        \<and> get_user_by_id env (user_id kr) w = Inr u \<and> \<not> is_active u \<longrightarrow>
      authenticate_api_key env w (key_id @ CHR ''.'' # raw_key)
        = Inl (R2RException 401 ''User account is inactive''))
   \<and> (CHR ''.'' \<notin> set key_id \<and> get_api_key_record env key_id w = Inr (Some kr)
        \<and> verify_api_key env raw_key (hashed_key kr)
        \<and> get_user_by_id env (user_id kr) w = Inr u \<and> is_active u \<longrightarrow>
      authenticate_api_key env w (key_id @ CHR ''.'' # raw_key) = Inr u)"
  by (simp add: authenticate_api_key_def split_once_none split_once_first)

theorem authenticate_api_key_failures_witness:
  "authenticate_api_key ex_env (world ex_state) ''abc''
     = Inl (R2RException 401 ''Invalid API key format'')
   \<and> authenticate_api_key ex_env (world ex_state) ''zz.secret''
       = Inl (R2RException 401 ''Invalid API key'')
   \<and> authenticate_api_key ex_env (world ex_state) ''pk.wrong''
       = Inl (R2RException 401 ''Invalid API key'')
   \<and> authenticate_api_key (ex_env\<lparr>get_user_by_id := \<lambda>i d. Inr (alice\<lparr>is_active := False\<rparr>)\<rparr>)
         (world ex_state) ''pk.secret''
       = Inl (R2RException 401 ''User account is inactive'')
   \<and> authenticate_api_key ex_env (world ex_state) ''pk.secret'' = Inr alice"
  using authenticate_api_key_failures [where env = ex_env and w = "world ex_state"
          and api_key = "''abc''" and key_id = "''zz''" and raw_key = "''secret''"]
        authenticate_api_key_failures [where env = ex_env and w = "world ex_state"
          and key_id = "''pk''" and raw_key = "''wrong''"
          and kr = "\<lparr>hashed_key = ''hk'', user_id = 1\<rparr>"]
        authenticate_api_key_failures
          [where env = "ex_env\<lparr>get_user_by_id := \<lambda>i d. Inr (alice\<lparr>is_active := False\<rparr>)\<rparr>"
          and w = "world ex_state" and key_id = "''pk''" and raw_key = "''secret''"
          and kr = "\<lparr>hashed_key = ''hk'', user_id = 1\<rparr>" and u = "alice\<lparr>is_active := False\<rparr>"]
        authenticate_api_key_failures [where env = ex_env and w = "world ex_state"
          and key_id = "''pk''" and raw_key = "''secret''"
          and kr = "\<lparr>hashed_key = ''hk'', user_id = 1\<rparr>" and u = alice]
  by (simp add: ex_defs)

subsection \<open>C7: login failures\<close>

text \<open>
  What \<^verbatim>\<open>login\<close> does on each failing path: a failure of the user lookup leaves
  \<^verbatim>\<open>login\<close> as it is; a stored hash that is not a string, and a password check that
  raises, are the internal fault (an \<^verbatim>\<open>HTTPException\<close> with status 500); a wrong password
  is "Incorrect email or password"; a right password of an unverified user, with
  verification required, is "Email not verified".
\<close>

lemma login_failures:
  "(get_user_by_email env em w = Inl e \<longrightarrow> login env w em pw = Inl e)
   \<and> (get_user_by_email env em w = Inr (Some u) \<and> hashed_password u = None \<longrightarrow>
        login env w em pw = Inl (HTTPException 500 ''Invalid password hash in database''))
   \<and> (get_user_by_email env em w = Inr (Some u) \<and> hashed_password u = Some h
        \<and> verify_password env pw h = Inl e \<longrightarrow>
        login env w em pw = Inl (HTTPException 500 ''Error during password verification''))
   \<and> (get_user_by_email env em w = Inr (Some u) \<and> hashed_password u = Some h
        \<and> verify_password env pw h = Inr False \<longrightarrow>
        login env w em pw = Inl (R2RException 401 ''Incorrect email or password''))
   \<and> (get_user_by_email env em w = Inr (Some u) \<and> hashed_password u = Some h
        \<and> verify_password env pw h = Inr True \<and> \<not> is_verified u
        \<and> require_email_verification env \<longrightarrow>
        login env w em pw = Inl (R2RException 401 ''Email not verified''))"
  by (simp add: login_def)

text \<open>
  C7, at a concrete input. The users handler raises status 404 for an email it does not
  know, which is how \<^verbatim>\<open>request_password_reset\<close> recognises a missing user. \<^verbatim>\<open>login\<close>
  with the unknown email \<open>b@x.com\<close> ends with that exception (status 404, NotFound);
  \<^verbatim>\<open>login\<close> with the known email \<open>a@x.com\<close> and a wrong password ends with
  "Incorrect email or password" (status 401, InvalidCredentials). The two responses differ.
\<close>

theorem login_distinguishes_unknown_user:
  "login ex_env (world ex_state) ''b@x.com'' ''pw1'' = Inl (R2RException 404 ''User not found'')
   \<and> login ex_env (world ex_state) ''a@x.com'' ''pw2''
       = Inl (R2RException 401 ''Incorrect email or password'')
   \<and> kind_of (R2RException 404 ''User not found'') = NotFound
   \<and> kind_of (R2RException 401 ''Incorrect email or password'') = InvalidCredentials"
  by (simp add: login_def ex_env_def alice_def kind_of_def)

subsection \<open>C8: password-reset requests\<close>

text \<open>
  The statement of C8 as written, at a concrete input: \<open>a@x.com\<close> exists, and the email
  provider (in the second case the store of the reset token) raises an
  \<^verbatim>\<open>R2RException\<close> with status 404, a failure other than "user not found". It does not
  reach the caller: the generic message is returned.
\<close>

theorem reset_swallows_mailer_failure:
  "get_user_by_email ex_env ''a@x.com'' (world ex_state) = Inr (Some alice)
   \<and> request_password_reset
        (ex_env\<lparr>send_password_reset_email :=
                   \<lambda>em t c d. Inl (R2RException 404 ''Template not found'')\<rparr>)
        (world ex_state) ''a@x.com''
      = (Inr ''If the email exists, a reset link has been sent'', world ex_state)
   \<and> request_password_reset
        (ex_env\<lparr>store_reset_token :=
                   \<lambda>i t e d. Inl (R2RException 404 ''Reset table not found'')\<rparr>)
        (world ex_state) ''a@x.com''
      = (Inr ''If the email exists, a reset link has been sent'', world ex_state)"
  by (simp add: request_password_reset_def Let_def datetime_add_def representable_def
      datetime_min_def datetime_max_def hours_def reset_handler_def ex_env_def)

text \<open>
  C8, amended. \<^verbatim>\<open>request_password_reset\<close> returns the same message
  "If the email exists, a reset link has been sent" when the user exists and every step
  succeeds and when the lookup fails with the store's "user not found", an
  \<^verbatim>\<open>R2RException\<close> with status 404; no other message is ever returned. An
  \<^verbatim>\<open>R2RException\<close> with status 404 raised by storing the reset token or by sending the
  email is swallowed in the same way. Every other failure, of the lookup, of the expiry
  \<open>now + 1 hour\<close>, of storing the reset token or of sending the email, reaches the caller
  unchanged.
\<close>

theorem request_password_reset_404:
  "(get_user_by_email env em w = Inl (R2RException 404 m) \<longrightarrow>
      request_password_reset env w em
        = (Inr ''If the email exists, a reset link has been sent'', w))
   \<and> (get_user_by_email env em w = Inr (Some u) \<and> representable (now env + hours 1)
        \<and> store_reset_token env (uid u) (generate_verification_code env) (now env + hours 1) w
            = Inr w1
        \<and> send_password_reset_email env em (generate_verification_code env)
            [''first_name'' \<mapsto> first_name u em] w1 = Inr w2 \<longrightarrow>
      request_password_reset env w em
        = (Inr ''If the email exists, a reset link has been sent'', w2))
   \<and> (\<forall>x. fst (request_password_reset env w em) = Inr x \<longrightarrow>
          x = ''If the email exists, a reset link has been sent'')
   \<and> (get_user_by_email env em w = Inr (Some u) \<and> representable (now env + hours 1)
        \<and> store_reset_token env (uid u) (generate_verification_code env) (now env + hours 1) w
            = Inl (R2RException 404 m) \<longrightarrow>
      request_password_reset env w em
        = (Inr ''If the email exists, a reset link has been sent'', w))
   \<and> (get_user_by_email env em w = Inr (Some u) \<and> representable (now env + hours 1)
        \<and> store_reset_token env (uid u) (generate_verification_code env) (now env + hours 1) w
            = Inr w1
        \<and> send_password_reset_email env em (generate_verification_code env)
            [''first_name'' \<mapsto> first_name u em] w1 = Inl (R2RException 404 m) \<longrightarrow>
      request_password_reset env w em
        = (Inr ''If the email exists, a reset link has been sent'', w1))
   \<and> (get_user_by_email env em w = Inl e \<and> (\<forall>m. e \<noteq> R2RException 404 m) \<longrightarrow>
      request_password_reset env w em = (Inl e, w))
   \<and> (get_user_by_email env em w = Inr (Some u) \<and> \<not> representable (now env + hours 1) \<longrightarrow>
      request_password_reset env w em = (Inl OverflowError, w))
   \<and> (get_user_by_email env em w = Inr (Some u) \<and> representable (now env + hours 1)
        \<and> store_reset_token env (uid u) (generate_verification_code env) (now env + hours 1) w
            = Inl e
        \<and> (\<forall>m. e \<noteq> R2RException 404 m) \<longrightarrow>
      request_password_reset env w em = (Inl e, w))
   \<and> (get_user_by_email env em w = Inr (Some u) \<and> representable (now env + hours 1)
        \<and> store_reset_token env (uid u) (generate_verification_code env) (now env + hours 1) w
            = Inr w1
        \<and> send_password_reset_email env em (generate_verification_code env)
            [''first_name'' \<mapsto> first_name u em] w1 = Inl e
        \<and> (\<forall>m. e \<noteq> R2RException 404 m) \<longrightarrow>
      request_password_reset env w em = (Inl e, w1))"
proof -
  have msg: "\<forall>x. fst (request_password_reset env w em) = Inr x \<longrightarrow>
          x = ''If the email exists, a reset link has been sent''"
    unfolding request_password_reset_def Let_def
    by (auto split: sum.splits option.splits dest: reset_handler_message)
  show ?thesis
    using msg
    by (simp add: request_password_reset_def Let_def datetime_add_def reset_handler_404
        reset_handler_other)
qed

theorem request_password_reset_404_witness:
  "request_password_reset ex_env (world ex_state) ''a@x.com''
     = (Inr ''If the email exists, a reset link has been sent'', world ex_state)
   \<and> request_password_reset ex_env (world ex_state) ''b@x.com''
     = (Inr ''If the email exists, a reset link has been sent'', world ex_state)
   \<and> request_password_reset
        (ex_env\<lparr>send_password_reset_email :=
                   \<lambda>em t c d. Inl (R2RException 404 ''Template not found'')\<rparr>)
        (world ex_state) ''a@x.com''
     = (Inr ''If the email exists, a reset link has been sent'', world ex_state)
   \<and> request_password_reset
        (ex_env\<lparr>get_user_by_email := \<lambda>em d. Inl (R2RException 500 ''Database unavailable'')\<rparr>)
        (world ex_state) ''a@x.com''
     = (Inl (R2RException 500 ''Database unavailable''), world ex_state)
   \<and> request_password_reset
        (ex_env\<lparr>send_password_reset_email := \<lambda>em t c d. Inl (OtherError ''SMTPError'')\<rparr>)
        (world ex_state) ''a@x.com''
     = (Inl (OtherError ''SMTPError''), world ex_state)"
proof -
  have g1: "get_user_by_email ex_env ''b@x.com'' (world ex_state)
              = Inl (R2RException 404 ''User not found'')"
    by (simp add: ex_env_def)
  have g2: "get_user_by_email ex_env ''a@x.com'' (world ex_state) = Inr (Some alice)
            \<and> representable (now ex_env + hours 1)
            \<and> store_reset_token ex_env (uid alice) (generate_verification_code ex_env)
                 (now ex_env + hours 1) (world ex_state) = Inr (world ex_state)
            \<and> send_password_reset_email ex_env ''a@x.com'' (generate_verification_code ex_env)
                 [''first_name'' \<mapsto> first_name alice ''a@x.com''] (world ex_state)
               = Inr (world ex_state)"
    by (simp add: ex_env_def range_defs)
  have g5: "get_user_by_email
              (ex_env\<lparr>send_password_reset_email :=
                         \<lambda>em t c d. Inl (R2RException 404 ''Template not found'')\<rparr>)
              ''a@x.com'' (world ex_state) = Inr (Some alice)
            \<and> representable
                 (now (ex_env\<lparr>send_password_reset_email :=
                                 \<lambda>em t c d. Inl (R2RException 404 ''Template not found'')\<rparr>)
                  + hours 1)
            \<and> store_reset_token
                 (ex_env\<lparr>send_password_reset_email :=
                            \<lambda>em t c d. Inl (R2RException 404 ''Template not found'')\<rparr>)
                 (uid alice)
                 (generate_verification_code
                    (ex_env\<lparr>send_password_reset_email :=
                               \<lambda>em t c d. Inl (R2RException 404 ''Template not found'')\<rparr>))
                 (now (ex_env\<lparr>send_password_reset_email :=
                                 \<lambda>em t c d. Inl (R2RException 404 ''Template not found'')\<rparr>)
                  + hours 1)
                 (world ex_state) = Inr (world ex_state)
            \<and> send_password_reset_email
                 (ex_env\<lparr>send_password_reset_email :=
                            \<lambda>em t c d. Inl (R2RException 404 ''Template not found'')\<rparr>)
                 ''a@x.com''
                 (generate_verification_code
                    (ex_env\<lparr>send_password_reset_email :=
                               \<lambda>em t c d. Inl (R2RException 404 ''Template not found'')\<rparr>))
                 [''first_name'' \<mapsto> first_name alice ''a@x.com''] (world ex_state)
               = Inl (R2RException 404 ''Template not found'')"
    by (simp add: ex_env_def range_defs)
  have g6: "get_user_by_email
              (ex_env\<lparr>get_user_by_email :=
                         \<lambda>em d. Inl (R2RException 500 ''Database unavailable'')\<rparr>)
              ''a@x.com'' (world ex_state)
              = Inl (R2RException 500 ''Database unavailable'')
            \<and> (\<forall>m. R2RException 500 ''Database unavailable'' \<noteq> R2RException 404 m)"
    by simp
  have g9: "get_user_by_email
              (ex_env\<lparr>send_password_reset_email := \<lambda>em t c d. Inl (OtherError ''SMTPError'')\<rparr>)
              ''a@x.com'' (world ex_state) = Inr (Some alice)
            \<and> representable
                 (now (ex_env\<lparr>send_password_reset_email :=
                                 \<lambda>em t c d. Inl (OtherError ''SMTPError'')\<rparr>) + hours 1)
            \<and> store_reset_token
                 (ex_env\<lparr>send_password_reset_email := \<lambda>em t c d. Inl (OtherError ''SMTPError'')\<rparr>)
                 (uid alice)
                 (generate_verification_code
                    (ex_env\<lparr>send_password_reset_email :=
                               \<lambda>em t c d. Inl (OtherError ''SMTPError'')\<rparr>))
                 (now (ex_env\<lparr>send_password_reset_email :=
                                 \<lambda>em t c d. Inl (OtherError ''SMTPError'')\<rparr>) + hours 1)
                 (world ex_state) = Inr (world ex_state)
            \<and> send_password_reset_email
                 (ex_env\<lparr>send_password_reset_email := \<lambda>em t c d. Inl (OtherError ''SMTPError'')\<rparr>)
                 ''a@x.com''
                 (generate_verification_code
                    (ex_env\<lparr>send_password_reset_email :=
                               \<lambda>em t c d. Inl (OtherError ''SMTPError'')\<rparr>))
                 [''first_name'' \<mapsto> first_name alice ''a@x.com''] (world ex_state)
               = Inl (OtherError ''SMTPError'')
            \<and> (\<forall>m. OtherError ''SMTPError'' \<noteq> R2RException 404 m)"
    by (simp add: ex_env_def range_defs)
  note t1 = request_password_reset_404 [where env = ex_env and w = "world ex_state"
          and em = "''b@x.com''" and m = "''User not found''",
          THEN conjunct1, THEN mp, OF g1]
  note t2 = request_password_reset_404 [where env = ex_env and w = "world ex_state"
          and em = "''a@x.com''" and u = alice and ?w1.0 = "world ex_state"
          and ?w2.0 = "world ex_state", THEN conjunct2, THEN conjunct1, THEN mp, OF g2]
  note t5 = request_password_reset_404
          [where env = "ex_env\<lparr>send_password_reset_email :=
                           \<lambda>em t c d. Inl (R2RException 404 ''Template not found'')\<rparr>"
          and w = "world ex_state" and em = "''a@x.com''" and u = alice
          and ?w1.0 = "world ex_state" and m = "''Template not found''",
          THEN conjunct2, THEN conjunct2, THEN conjunct2, THEN conjunct2, THEN conjunct1,
          THEN mp, OF g5]
  note t6 = request_password_reset_404
          [where env = "ex_env\<lparr>get_user_by_email :=
                           \<lambda>em d. Inl (R2RException 500 ''Database unavailable'')\<rparr>"
          and w = "world ex_state" and em = "''a@x.com''"
          and e = "R2RException 500 ''Database unavailable''",
          THEN conjunct2, THEN conjunct2, THEN conjunct2, THEN conjunct2, THEN conjunct2,
          THEN conjunct1, THEN mp, OF g6]
  note t9 = request_password_reset_404
          [where env = "ex_env\<lparr>send_password_reset_email :=
                           \<lambda>em t c d. Inl (OtherError ''SMTPError'')\<rparr>"
          and w = "world ex_state" and em = "''a@x.com''" and u = alice
          and ?w1.0 = "world ex_state" and e = "OtherError ''SMTPError''",
          THEN conjunct2, THEN conjunct2, THEN conjunct2, THEN conjunct2, THEN conjunct2,
          THEN conjunct2, THEN conjunct2, THEN conjunct2, THEN mp, OF g9]
  show ?thesis
    using t1 t2 t5 t6 t9 by (intro conjI)
qed

subsection \<open>C9: email verification\<close>

text \<open>
  C9. \<^verbatim>\<open>verify_email\<close> passes a failure of the lookup of the code on unchanged, with
  nothing marked and nothing deleted; when the lookup gives a user id it marks that user
  verified, then deletes the code in the store so obtained, and returns
  "Email verified successfully". Over the verification-code table of the design: a code
  bound to no user fails with \<open>InvalidCode\<close> and leaves the table as it was; a code bound to
  a user succeeds, after which that user is verified, no verified user is lost, and the code
  is bound to nobody. The email argument plays no part.
\<close>

theorem verify_email_code:
  "(get_user_id_by_verification_code env c w = Inl e \<longrightarrow>
      verify_email env w em c = (Inl e, w))
   \<and> (get_user_id_by_verification_code env c w = Inr i
        \<and> mark_user_as_verified env i w = Inr w1
        \<and> remove_verification_code env c w1 = Inr w2 \<longrightarrow>
      verify_email env w em c = (Inr ''Email verified successfully'', w2))
   \<and> (map_of (verification_codes d) c = None \<longrightarrow>
      verify_email (with_directory env') d em c = (Inl invalid_code, d))
   \<and> (map_of (verification_codes d) c = Some i \<longrightarrow>
      fst (verify_email (with_directory env') d em c) = Inr ''Email verified successfully''
      \<and> i \<in> set (verified (snd (verify_email (with_directory env') d em c)))
      \<and> set (verified d) \<subseteq> set (verified (snd (verify_email (with_directory env') d em c)))
      \<and> map_of (verification_codes (snd (verify_email (with_directory env') d em c))) c = None)"
  by (auto simp: verify_email_def with_directory_simps ds_get_user_id_by_verification_code_def
      ds_mark_user_as_verified_def ds_remove_verification_code_def map_of_filter_fst)

theorem verify_email_code_witness:
  "verify_email (with_directory ex_env) (world ex_state) ''a@x.com'' ''code8''
     = (Inl invalid_code, world ex_state)
   \<and> fst (verify_email (with_directory ex_env) (world ex_state) ''a@x.com'' ''code7'')
       = Inr ''Email verified successfully''
   \<and> 1 \<in> set (verified (snd (verify_email (with_directory ex_env) (world ex_state)
                                ''a@x.com'' ''code7'')))
   \<and> map_of (verification_codes (snd (verify_email (with_directory ex_env) (world ex_state)
                                ''a@x.com'' ''code7''))) ''code7'' = None
   \<and> verify_email ex_env (world ex_state) ''a@x.com'' ''code7''
       = (Inr ''Email verified successfully'', \<lparr>verification_codes = [], verified = [1]\<rparr>)"
  using verify_email_code [where env' = ex_env and d = "world ex_state" and c = "''code8''"
          and env = ex_env and w = "world ex_state" and e = invalid_code]
        verify_email_code [where env' = ex_env and d = "world ex_state" and c = "''code7''"
          and i = 1 and env = ex_env and w = "world ex_state"
          and ?w1.0 = "\<lparr>verification_codes = [(''code7'', 1)], verified = [1]\<rparr>"
          and ?w2.0 = "\<lparr>verification_codes = [], verified = [1]\<rparr>" and em = "''a@x.com''"]
  by (simp add: ex_defs ds_get_user_id_by_verification_code_def ds_mark_user_as_verified_def
      ds_remove_verification_code_def)

subsection \<open>C10: the expiry boundary\<close>

text \<open>
  C10. \<^verbatim>\<open>decode_token\<close> fails with "Token has expired" only when the decoded expiry is
  strictly earlier than the clock of the call, and exactly when the string is not
  blacklisted, the cipher accepts it, the three claims are present, the expiry decodes (it
  is an instant a \<^verbatim>\<open>datetime\<close> holds) and is strictly earlier than the clock; a token
  whose expiry equals the clock, itself a \<^verbatim>\<open>datetime\<close>, is accepted and its claims are
  returned.
\<close>

theorem decode_token_expired_iff:
  "(decode_token env st t = Inl (R2RException 401 ''Token has expired'')
      \<longleftrightarrow> (\<not> is_token_blacklisted st t
           \<and> (\<exists>pl em tt ex. verify_secure_token env t = Some pl \<and> p_sub pl = Some em
                 \<and> p_token_type pl = Some tt \<and> p_exp pl = Some ex
                 \<and> representable ex \<and> ex < now env)))
   \<and> (\<not> is_token_blacklisted st t \<and> verify_secure_token env t = Some pl
        \<and> p_sub pl = Some em \<and> p_token_type pl = Some tt \<and> p_exp pl = Some (now env)
        \<and> representable (now env) \<longrightarrow>
      decode_token env st t = Inr \<lparr>td_email = em, td_token_type = tt, td_exp = now env\<rparr>)"
  by (auto simp: decode_token_def fromtimestamp_def split: option.splits)

theorem decode_token_expired_iff_witness:
  "decode_token ex_env ex_state ''ref.tok''
     = Inr \<lparr>td_email = ''a@x.com'', td_token_type = ''refresh'', td_exp = 1000\<rparr>
   \<and> now ex_env = 1000
   \<and> decode_token ex_env ex_state ''acc.tok'' \<noteq> Inl (R2RException 401 ''Token has expired'')"
  using decode_token_expired_iff [where env = ex_env and st = ex_state and t = "''ref.tok''"
          and pl = "\<lparr>p_sub = Some ''a@x.com'', p_token_type = Some ''refresh'', p_exp = Some 1000\<rparr>"
          and em = "''a@x.com''" and tt = "''refresh''"]
        decode_token_expired_iff [where env = ex_env and st = ex_state and t = "''acc.tok''"]
  by (simp add: ex_defs is_token_blacklisted_def representable_def datetime_min_def
      datetime_max_def)

end
